theory Spec2Isabelle
  imports Complex_Main
begin

section \<open>The fine-tuning harness of main.py\<close>

text \<open>
  The development embeds class \<open>Instructor\<close> of \<open>main.py\<close>: its constructor, the training
  pass \<open>_train\<close>, the evaluation pass \<open>_test\<close> and the epoch controller \<open>run\<close>.

  Python floats are idealised as real numbers: sums, products and quotients are exact,
  and the order is the usual one (no rounding, no NaN, no infinities). Python integers
  that count samples, batches and steps are natural numbers.

  Everything that \<open>main.py\<close> imports (torch, transformers, matplotlib, the logger and the
  modules \<open>data\<close>, \<open>model\<close>, \<open>config\<close> of the repository) is outside the file. Calls into
  it are recorded in a call log, in program order, and the values it computes are taken
  from a record of parameters, so that every theorem holds for all of them.
\<close>

subsection \<open>Errors, arguments, batches\<close>

datatype py_error = ValueError string | ZeroDivisionError

text \<open>The fields of \<open>args\<close> that \<open>main.py\<close> branches or computes on.\<close>

record args =
  model_name :: string
  method_name :: string
  num_classes :: nat
  num_epoch :: nat
  device_is_cuda :: bool
  log_name :: string

text \<open>
  One item of a data loader: the dictionary \<open>inputs\<close> (kept abstract) and the tensor
  \<open>targets\<close> of integer class labels; \<open>targets.size(0)\<close> is the length of the list.
\<close>

record 'i batch =
  inputs :: 'i
  targets :: "nat list"

text \<open>
  A data loader is the list of batches that one pass over it yields; \<open>len(dataloader)\<close>
  is the length of the list, and every pass yields the same number of batches.
\<close>

type_synonym 'i dataloader = "'i batch list"

subsection \<open>The call log\<close>

text \<open>The messages handed to \<open>logger.info\<close>, with the values that are formatted into them.\<close>

datatype msg =
    Creating_model string
  | Cuda_memory_allocated
  | Training_arguments
  | Progress nat nat
  | Train_metrics real real
  | Test_metrics real real
  | Best_metrics real real
  | Log_saved string

text \<open>
  The calls that leave \<open>main.py\<close>. \<open>Forward\<close> carries the model's mode flag and the
  gradient-tracking flag under which the forward pass runs. \<open>Torch_save\<close> stands for
  line 112, which is commented out in the source: no function below emits it.
\<close>

datatype call =
    Logger_info msg
  | Tokenizer_from_pretrained string
  | Model_from_pretrained string
  | Build_head string nat
  | Model_to_device
  | Load_data
  | New_criterion
  | New_optimizer
  | New_scheduler real nat
  | Model_train
  | Model_eval
  | No_grad_enter
  | No_grad_exit
  | To_device
  | Forward bool bool
  | Criterion
  | Zero_grad
  | Backward
  | Optimizer_step
  | Scheduler_step
  | Loss_item
  | Correct_item
  | Plt_plot "nat list" "real list"
  | Plt_ylabel string
  | Plt_xlabel string
  | Plt_savefig string
  | Plt_show
  | Torch_save string

subsection \<open>The objects the passes mutate\<close>

text \<open>
  The scheduler returned by \<open>get_linear_schedule_with_warmup\<close>: the two numbers it is
  constructed with and the number of times \<open>scheduler.step()\<close> has been called.
\<close>

record scheduler =
  num_warmup_steps :: real
  num_training_steps :: nat
  step_count :: nat

text \<open>
  The store: the model (\<open>params\<close> are the trainable parameters, \<open>training\<close> the mode
  flag set by \<open>model.train()\<close> and \<open>model.eval()\<close>, \<open>grads\<close> the gradients held by the
  parameters), torch's global gradient-tracking flag, the optimizer and the scheduler
  objects that \<open>run\<close> creates and passes by reference, and the call log.
\<close>

record ('p, 'g, 'o) store =
  params :: 'p
  training :: bool
  grads :: "'g option"
  grad_enabled :: bool
  optim :: 'o
  sched :: scheduler
  calls :: "call list"

text \<open>
  The library functions, as parameters. \<open>forward\<close> is \<open>self.model(inputs)\<close> (module
  \<open>model\<close>): one row of class scores per sample, a function of the parameters, the mode
  flag and the inputs, with no effect on the store. \<open>cross_entropy\<close> is \<open>nn.CrossEntropyLoss()\<close>. \<open>backward\<close> gives the
  gradients after \<open>loss.backward()\<close> from the gradients held before it. \<open>adamw_step\<close> is
  \<open>optimizer.step()\<close>, and \<open>set_lr\<close> is the write of the scheduled learning rate into the
  optimizer by \<open>scheduler.step()\<close>. \<open>pretrained\<close> gives the parameters of the model that
  the constructor builds, \<open>adamw\<close> the fresh optimizer, and \<open>load_data\<close> (module \<open>data\<close>)
  the two data loaders.
\<close>

record ('i, 'p, 'g, 'o) torch =
  forward :: "'p \<Rightarrow> bool \<Rightarrow> 'i \<Rightarrow> real list list"
  cross_entropy :: "real list list \<Rightarrow> nat list \<Rightarrow> real"
  backward :: "'p \<Rightarrow> 'i \<Rightarrow> nat list \<Rightarrow> 'g option \<Rightarrow> 'g option"
  adamw_step :: "'o \<Rightarrow> 'g option \<Rightarrow> 'p \<Rightarrow> 'p \<times> 'o"
  set_lr :: "scheduler \<Rightarrow> 'o \<Rightarrow> 'o"
  pretrained :: "string \<Rightarrow> string \<Rightarrow> nat \<Rightarrow> 'p"
  adamw :: "args \<Rightarrow> 'p \<Rightarrow> 'o"
  load_data :: "args \<Rightarrow> string \<Rightarrow> 'i dataloader \<times> 'i dataloader"

definition log_calls :: "call list \<Rightarrow> ('p, 'g, 'o) store \<Rightarrow> ('p, 'g, 'o) store" where
  "log_calls cs s = s\<lparr>calls := calls s @ cs\<rparr>"

subsection \<open>Counting correct predictions\<close>

text \<open>
  \<open>torch.argmax(predicts, dim=1)\<close>: for each row the index of its largest score (the
  first one among equals).
\<close>

fun argmax_from :: "nat \<Rightarrow> real \<Rightarrow> nat \<Rightarrow> real list \<Rightarrow> nat" where
  "argmax_from best m i [] = best"
| "argmax_from best m i (y # ys) =
     (if m < y then argmax_from i y (Suc i) ys else argmax_from best m (Suc i) ys)"

definition argmax :: "real list \<Rightarrow> nat" where
  "argmax row = (case row of [] \<Rightarrow> 0 | x # xs \<Rightarrow> argmax_from 0 x 1 xs)"

text \<open>
  \<open>(torch.argmax(predicts, dim=1) == targets).sum().item()\<close>: \<open>argmax\<close> gives one
  predicted class per row of logits, and \<open>==\<close> compares the predictions with the targets
  as torch compares two vectors. Vectors of equal length are compared elementwise. A
  vector of length 1 is broadcast against the other one: a single prediction is compared
  with every target, a single target with every prediction, and then the sum counts up
  to the length of the longer vector. For every other pair of lengths torch raises an
  error of its own, which this model of the library does not represent; the count is 0
  there.
\<close>

definition count_correct :: "real list list \<Rightarrow> nat list \<Rightarrow> nat" where
  "count_correct predicts tgts =
     (let preds = map argmax predicts
      in if length preds = length tgts then
           length (filter (\<lambda>(p, t). p = t) (zip preds tgts))
         else if length preds = 1 then length (filter (\<lambda>t. preds ! 0 = t) tgts)
         else if length tgts = 1 then length (filter (\<lambda>p. p = tgts ! 0) preds)
         else 0)"

subsection \<open>The training pass\<close>

text \<open>
  The accumulators \<open>train_loss\<close>, \<open>n_correct\<close>, \<open>n_train\<close> of \<open>_train\<close> (and \<open>test_loss\<close>,
  \<open>n_correct\<close>, \<open>n_test\<close> of \<open>_test\<close>).
\<close>

record totals =
  loss_sum :: real
  n_correct :: nat
  n_seen :: nat

definition totals0 :: totals where
  "totals0 = \<lparr>loss_sum = 0, n_correct = 0, n_seen = 0\<rparr>"

text \<open>The three accumulator updates at the end of a loop body (lines 59-61 and 76-78).\<close>

definition accumulate :: "real \<Rightarrow> real list list \<Rightarrow> nat list \<Rightarrow> totals \<Rightarrow> totals" where
  "accumulate loss predicts tgts t =
     \<lparr>loss_sum = loss_sum t + loss * real (length tgts),
      n_correct = n_correct t + count_correct predicts tgts,
      n_seen = n_seen t + length tgts\<rparr>"

text \<open>The body of the loop of \<open>_train\<close> (lines 49-61), statement by statement.\<close>

definition train_batch ::
  "('i, 'p, 'g, 'o) torch \<Rightarrow> 'i batch \<Rightarrow> totals \<times> ('p, 'g, 'o) store
     \<Rightarrow> totals \<times> ('p, 'g, 'o) store" where
  "train_batch env b ts =
     (let (t, s) = ts;
          s1 = log_calls [To_device] s;
          predicts = forward env (params s1) (training s1) (inputs b);
          s2 = log_calls [Forward (training s1) (grad_enabled s1)] s1;
          loss = cross_entropy env predicts (targets b);
          s3 = log_calls [Criterion] s2;
          s4 = log_calls [Zero_grad] (s3\<lparr>grads := None\<rparr>);
          s5 = log_calls [Backward]
                 (s4\<lparr>grads := backward env (params s4) (inputs b) (targets b) (grads s4)\<rparr>);
          (p', o') = adamw_step env (optim s5) (grads s5) (params s5);
          s6 = log_calls [Optimizer_step] (s5\<lparr>params := p', optim := o'\<rparr>);
          sc = (sched s6)\<lparr>step_count := Suc (step_count (sched s6))\<rparr>;
          s7 = log_calls [Scheduler_step] (s6\<lparr>sched := sc, optim := set_lr env sc (optim s6)\<rparr>);
          s8 = log_calls [Loss_item, Correct_item] s7
      in (accumulate loss predicts (targets b) t, s8))"

text \<open>
  The final division of both passes. Python raises \<open>ZeroDivisionError\<close> when the
  divisor \<open>n_train\<close> (\<open>n_test\<close>) is 0, whether the dividend is the integer 0 or a float.
\<close>

definition mean_results :: "totals \<Rightarrow> py_error + real \<times> real" where
  "mean_results t =
     (if n_seen t = 0 then Inl ZeroDivisionError
      else Inr (loss_sum t / real (n_seen t), real (n_correct t) / real (n_seen t)))"

text \<open>
  \<open>Instructor._train\<close>: the mode switch \<open>self.model.train()\<close> (the store at the entry of
  the loop), the loop over the data loader (the progress bar of \<open>tqdm\<close> shows nothing of
  the store and is left out), and the division.
\<close>

definition train_entry :: "('p, 'g, 'o) store \<Rightarrow> ('p, 'g, 'o) store" where
  "train_entry s = log_calls [Model_train] (s\<lparr>training := True\<rparr>)"

definition Instructor_train ::
  "('i, 'p, 'g, 'o) torch \<Rightarrow> 'i dataloader \<Rightarrow> ('p, 'g, 'o) store
     \<Rightarrow> (py_error + real \<times> real) \<times> ('p, 'g, 'o) store" where
  "Instructor_train env dataloader s =
     (let (t, s') = fold (train_batch env) dataloader (totals0, train_entry s)
      in (mean_results t, s'))"

subsection \<open>The evaluation pass\<close>

text \<open>The body of the loop of \<open>_test\<close> (lines 71-78).\<close>

definition test_batch ::
  "('i, 'p, 'g, 'o) torch \<Rightarrow> 'i batch \<Rightarrow> totals \<times> ('p, 'g, 'o) store
     \<Rightarrow> totals \<times> ('p, 'g, 'o) store" where
  "test_batch env b ts =
     (let (t, s) = ts;
          s1 = log_calls [To_device] s;
          predicts = forward env (params s1) (training s1) (inputs b);
          s2 = log_calls [Forward (training s1) (grad_enabled s1)] s1;
          loss = cross_entropy env predicts (targets b);
          s3 = log_calls [Criterion] s2;
          s4 = log_calls [Loss_item, Correct_item] s3
      in (accumulate loss predicts (targets b) t, s4))"

text \<open>
  \<open>Instructor._test\<close>: \<open>self.model.eval()\<close>, then \<open>with torch.no_grad()\<close> switches
  gradient tracking off around the loop and restores the flag it found; the division
  stands after the block.
\<close>

definition test_entry :: "('p, 'g, 'o) store \<Rightarrow> ('p, 'g, 'o) store" where
  "test_entry s =
     (let s0 = log_calls [Model_eval] (s\<lparr>training := False\<rparr>)
      in log_calls [No_grad_enter] (s0\<lparr>grad_enabled := False\<rparr>))"

definition Instructor_test ::
  "('i, 'p, 'g, 'o) torch \<Rightarrow> 'i dataloader \<Rightarrow> ('p, 'g, 'o) store
     \<Rightarrow> (py_error + real \<times> real) \<times> ('p, 'g, 'o) store" where
  "Instructor_test env dataloader s =
     (let prev = grad_enabled s;
          (t, s2) = fold (test_batch env) dataloader (totals0, test_entry s);
          s3 = log_calls [No_grad_exit] (s2\<lparr>grad_enabled := prev\<rparr>)
      in (mean_results t, s3))"

subsection \<open>The constructor\<close>

text \<open>
  The object after \<open>__init__\<close>: its arguments, the name of the tokenizer it loaded and
  the parameters of \<open>self.model\<close>.
\<close>

record 'p instructor =
  ins_args :: args
  tokenizer :: string
  model :: 'p

text \<open>
  Lines 34-37: the move to the device and the two logging steps (\<open>_print_args\<close> writes
  a header and a line per argument, recorded as one message).
\<close>

definition init_finish ::
  "('i, 'p, 'g, 'o) torch \<Rightarrow> args \<Rightarrow> string \<Rightarrow> call list
     \<Rightarrow> (py_error + 'p instructor) \<times> call list" where
  "init_finish env a base cs =
     (let cs1 = cs @ [Model_to_device];
          cs2 = (if device_is_cuda a then cs1 @ [Logger_info Cuda_memory_allocated] else cs1);
          cs3 = cs2 @ [Logger_info Training_arguments]
      in (Inr \<lparr>ins_args = a, tokenizer = base,
               model = pretrained env base (method_name a) (num_classes a)\<rparr>, cs3))"

text \<open>Lines 27-32: the choice of the head by \<open>method_name\<close>.\<close>

definition init_method ::
  "('i, 'p, 'g, 'o) torch \<Rightarrow> args \<Rightarrow> string \<Rightarrow> call list
     \<Rightarrow> (py_error + 'p instructor) \<times> call list" where
  "init_method env a base cs =
     (if method_name a = ''fnn'' then
        init_finish env a base (cs @ [Build_head ''DiffusionModel_FNN'' (num_classes a)])
      else if method_name a = ''lstm'' then
        init_finish env a base (cs @ [Build_head ''DiffusionModel_LSTM'' (num_classes a)])
      else (Inl (ValueError ''unknown method''), cs))"

text \<open>
  \<open>Instructor.__init__\<close> (lines 14-37), from the choice of the encoder by \<open>model_name\<close>
  on; the call log is threaded through.
\<close>

definition Instructor_init ::
  "('i, 'p, 'g, 'o) torch \<Rightarrow> args \<Rightarrow> call list \<Rightarrow> (py_error + 'p instructor) \<times> call list" where
  "Instructor_init env a cs =
     (let cs1 = cs @ [Logger_info (Creating_model (model_name a))]
      in if model_name a = ''bert'' then
           init_method env a ''bert-base-uncased''
             (cs1 @ [Tokenizer_from_pretrained ''bert-base-uncased'',
                     Model_from_pretrained ''bert-base-uncased''])
         else if model_name a = ''roberta'' then
           init_method env a ''roberta-base''
             (cs1 @ [Tokenizer_from_pretrained ''roberta-base'',
                     Model_from_pretrained ''roberta-base''])
         else (Inl (ValueError ''unknown model''), cs1))"

subsection \<open>The epoch controller\<close>

text \<open>The local variables of \<open>run\<close> that live across epochs (lines 102 and 104).\<close>

record run_locals =
  best_loss :: real
  best_acc :: real
  l_acc :: "real list"
  l_epo :: "nat list"

definition locals0 :: run_locals where
  "locals0 = \<lparr>best_loss = 0, best_acc = 0, l_acc = [], l_epo = []\<rparr>"

text \<open>Lines 109-110: the test that replaces the best pair, and the replacement.\<close>

definition update_best :: "real \<times> real \<Rightarrow> run_locals \<Rightarrow> run_locals" where
  "update_best r loc =
     (let (test_loss, test_acc) = r
      in if test_acc > best_acc loc \<or> (test_acc = best_acc loc \<and> test_loss < best_loss loc)
         then loc\<lparr>best_acc := test_acc, best_loss := test_loss\<rparr>
         else loc)"

text \<open>
  The body of the loop over epochs (lines 106-116). An error of either pass leaves the
  loop: nothing in \<open>run\<close> catches it.
\<close>

definition epoch_body ::
  "('i, 'p, 'g, 'o) torch \<Rightarrow> args \<Rightarrow> 'i dataloader \<Rightarrow> 'i dataloader \<Rightarrow> nat
     \<Rightarrow> run_locals \<times> ('p, 'g, 'o) store \<Rightarrow> (py_error + run_locals) \<times> ('p, 'g, 'o) store" where
  "epoch_body env a train_dataloader test_dataloader epoch ls =
     (let (loc, s) = ls
      in case Instructor_train env train_dataloader s of
           (Inl e, s1) \<Rightarrow> (Inl e, s1)
         | (Inr (train_loss, train_acc), s1) \<Rightarrow>
             (case Instructor_test env test_dataloader s1 of
                (Inl e, s2) \<Rightarrow> (Inl e, s2)
              | (Inr (test_loss, test_acc), s2) \<Rightarrow>
                  (let loc1 = loc\<lparr>l_epo := l_epo loc @ [epoch], l_acc := l_acc loc @ [test_acc]\<rparr>;
                       loc2 = update_best (test_loss, test_acc) loc1;
                       s3 = log_calls
                              [Logger_info (Progress (epoch + 1) (num_epoch a)),
                               Logger_info (Train_metrics train_loss train_acc),
                               Logger_info (Test_metrics test_loss test_acc)] s2
                   in (Inr loc2, s3))))"

text \<open>The loop \<open>for epoch in range(num_epoch)\<close>, over the list of epoch indices.\<close>

fun epoch_loop ::
  "('i, 'p, 'g, 'o) torch \<Rightarrow> args \<Rightarrow> 'i dataloader \<Rightarrow> 'i dataloader \<Rightarrow> nat list
     \<Rightarrow> run_locals \<times> ('p, 'g, 'o) store \<Rightarrow> (py_error + run_locals) \<times> ('p, 'g, 'o) store" where
  "epoch_loop env a tr te [] ls = (Inr (fst ls), snd ls)"
| "epoch_loop env a tr te (epoch # es) ls =
     (case epoch_body env a tr te epoch ls of
        (Inl e, s) \<Rightarrow> (Inl e, s)
      | (Inr loc, s) \<Rightarrow> epoch_loop env a tr te es (loc, s))"

text \<open>
  Lines 83-100: the data loaders, the criterion, the optimizer and the scheduler. The
  store starts with the model of the constructor, in the state torch gives a fresh
  module (training mode, no gradients, gradient tracking on).
\<close>

definition run_setup ::
  "('i, 'p, 'g, 'o) torch \<Rightarrow> 'p instructor \<Rightarrow> call list
     \<Rightarrow> ('i dataloader \<times> 'i dataloader) \<times> ('p, 'g, 'o) store" where
  "run_setup env self cs =
     (let (train_dataloader, test_dataloader) = load_data env (ins_args self) (tokenizer self);
          total_steps = length train_dataloader * num_epoch (ins_args self);
          warmup_steps = 0.1 * real (length train_dataloader)
      in ((train_dataloader, test_dataloader),
          \<lparr>params = model self, training = True, grads = None, grad_enabled = True,
           optim = adamw env (ins_args self) (model self),
           sched = \<lparr>num_warmup_steps = warmup_steps, num_training_steps = total_steps,
                    step_count = 0\<rparr>,
           calls = cs @ [Load_data, New_criterion, New_optimizer,
                         New_scheduler warmup_steps total_steps]\<rparr>))"

text \<open>Lines 117-123: the two closing log lines and the plot.\<close>

definition run_finish :: "args \<Rightarrow> run_locals \<Rightarrow> call list" where
  "run_finish a loc =
     [Logger_info (Best_metrics (best_loss loc) (best_acc loc)),
      Logger_info (Log_saved (log_name a)),
      Plt_plot (l_epo loc) (l_acc loc),
      Plt_ylabel ''accuracy'',
      Plt_xlabel ''epoch'',
      Plt_savefig ''image.png'',
      Plt_show]"

text \<open>
  \<open>Instructor.run\<close>. Python's \<open>run\<close> returns nothing; the model returns the local
  variables it ends with, beside the store, so that theorems can speak about them.
\<close>

definition Instructor_run ::
  "('i, 'p, 'g, 'o) torch \<Rightarrow> 'p instructor \<Rightarrow> call list
     \<Rightarrow> (py_error + run_locals) \<times> ('p, 'g, 'o) store" where
  "Instructor_run env self cs =
     (let ((train_dataloader, test_dataloader), s0) = run_setup env self cs
      in case epoch_loop env (ins_args self) train_dataloader test_dataloader
                [0 ..< num_epoch (ins_args self)] (locals0, s0) of
           (Inl e, s) \<Rightarrow> (Inl e, s)
         | (Inr loc, s) \<Rightarrow> (Inr loc, log_calls (run_finish (ins_args self) loc) s))"

text \<open>
  The script at the end of the file (lines 126-136): construct, then run, on the
  arguments that \<open>get_config\<close> returned. The result is the error that ended the program,
  or the locals of \<open>run\<close>, with the call log.
\<close>

definition main :: "('i, 'p, 'g, 'o) torch \<Rightarrow> args \<Rightarrow> (py_error + run_locals) \<times> call list" where
  "main env a =
     (case Instructor_init env a [] of
        (Inl e, cs) \<Rightarrow> (Inl e, cs)
      | (Inr ins, cs) \<Rightarrow>
          (let (r, s) = (Instructor_run env ins cs :: (py_error + run_locals) \<times> ('p, 'g, 'o) store)
           in (r, calls s)))"

subsection \<open>Vocabulary of the properties\<close>

text \<open>The size of a batch, and the number of samples of a data loader.\<close>

definition batch_size :: "'i batch \<Rightarrow> nat" where
  "batch_size b = length (targets b)"

definition n_samples :: "'i dataloader \<Rightarrow> nat" where
  "n_samples bs = sum_list (map batch_size bs)"

text \<open>
  The logits a pass computes, batch by batch: the forward pass on each batch in the
  store the loop body finds, which is the store the body left for the batch before.
  \<open>step\<close> is the loop body, \<open>train_batch\<close> or \<open>test_batch\<close>.
\<close>

fun predicts_of ::
  "(('i, 'p, 'g, 'o) torch \<Rightarrow> 'i batch \<Rightarrow> totals \<times> ('p, 'g, 'o) store \<Rightarrow> totals \<times> ('p, 'g, 'o) store)
     \<Rightarrow> ('i, 'p, 'g, 'o) torch \<Rightarrow> 'i dataloader \<Rightarrow> ('p, 'g, 'o) store \<Rightarrow> real list list list" where
  "predicts_of step env [] s = []"
| "predicts_of step env (b # bs) s =
     forward env (params s) (training s) (inputs b)
       # predicts_of step env bs (snd (step env b (totals0, s)))"

text \<open>The scalar loss of each batch, and the number of correct predictions of a pass.\<close>

definition batch_losses ::
  "('i, 'p, 'g, 'o) torch \<Rightarrow> real list list list \<Rightarrow> 'i dataloader \<Rightarrow> real list" where
  "batch_losses env ps bs = map (\<lambda>(p, b). cross_entropy env p (targets b)) (zip ps bs)"

definition correct_total :: "real list list list \<Rightarrow> 'i dataloader \<Rightarrow> nat" where
  "correct_total ps bs = sum_list (map (\<lambda>(p, b). count_correct p (targets b)) (zip ps bs))"

text \<open>The sum of the per-batch losses, each weighted by the size of its batch.\<close>

definition weighted_loss :: "real list \<Rightarrow> 'i dataloader \<Rightarrow> real" where
  "weighted_loss ls bs = sum_list (map (\<lambda>(l, b). l * real (batch_size b)) (zip ls bs))"

text \<open>The calls of one loop body, in the mode and under the tracking flag it runs.\<close>

definition train_batch_calls :: "bool \<Rightarrow> bool \<Rightarrow> call list" where
  "train_batch_calls tr ge =
     [To_device, Forward tr ge, Criterion, Zero_grad, Backward, Optimizer_step,
      Scheduler_step, Loss_item, Correct_item]"

definition test_batch_calls :: "bool \<Rightarrow> bool \<Rightarrow> call list" where
  "test_batch_calls tr ge = [To_device, Forward tr ge, Criterion, Loss_item, Correct_item]"

text \<open>The file a call writes, if it writes one, and the files a call log writes.\<close>

fun persisted :: "call \<Rightarrow> string option" where
  "persisted (Plt_savefig f) = Some f"
| "persisted (Torch_save f) = Some f"
| "persisted c = None"

definition files_written :: "call list \<Rightarrow> string list" where
  "files_written cs = List.map_filter persisted cs"

text \<open>The evaluation results that a call log reports, as (loss, accuracy), in order.\<close>

fun reported_test :: "call \<Rightarrow> (real \<times> real) option" where
  "reported_test (Logger_info (Test_metrics l a)) = Some (l, a)"
| "reported_test c = None"

definition test_results :: "call list \<Rightarrow> (real \<times> real) list" where
  "test_results cs = List.map_filter reported_test cs"

subsection \<open>A small instance\<close>

text \<open>
  A concrete instance of the library, at which the theorems are instantiated: the
  inputs of a batch are its logits, which the model hands back as they are when its
  parameter is even and with every row reversed when it is odd; an optimizer step adds
  one to the parameter.
\<close>

definition demo_torch ::
  "real list list dataloader \<times> real list list dataloader
     \<Rightarrow> (real list list, nat, nat, nat) torch" where
  "demo_torch dls =
     \<lparr>forward = (\<lambda>p m x. if even p then x else map rev x),
      cross_entropy = (\<lambda>ps ts. if count_correct ps ts = length ts then 1 / 4 else 3 / 4),
      backward = (\<lambda>p x ts g. Some (length ts)),
      adamw_step = (\<lambda>opt g p. (Suc p, Suc opt)),
      set_lr = (\<lambda>sc opt. opt),
      pretrained = (\<lambda>base method n. 0),
      adamw = (\<lambda>a p. 0),
      load_data = (\<lambda>a tok. dls)\<rparr>"

definition demo_args :: "string \<Rightarrow> string \<Rightarrow> nat \<Rightarrow> args" where
  "demo_args mo me n =
     \<lparr>model_name = mo, method_name = me, num_classes = 2, num_epoch = n,
      device_is_cuda = False, log_name = ''demo.log''\<rparr>"

definition demo_batches :: "real list list dataloader" where
  "demo_batches =
     [\<lparr>inputs = [[2, 1], [0, 3]], targets = [0, 0]\<rparr>, \<lparr>inputs = [[1, 5]], targets = [1]\<rparr>]"

definition demo_train :: "real list list dataloader" where
  "demo_train = [\<lparr>inputs = [[2, 1], [0, 3]], targets = [0, 0]\<rparr>]"

definition demo_test :: "real list list dataloader" where
  "demo_test = [\<lparr>inputs = [[1, 0]], targets = [1]\<rparr>]"

definition demo_test_wrong :: "real list list dataloader" where
  "demo_test_wrong = [\<lparr>inputs = [[0, 1]], targets = [1]\<rparr>]"

definition demo_wide :: "real list list dataloader" where
  "demo_wide = [\<lparr>inputs = [[2, 1], [3, 0]], targets = [0]\<rparr>]"

definition demo_store :: "(nat, nat, nat) store" where
  "demo_store =
     \<lparr>params = 0, training = True, grads = None, grad_enabled = True, optim = 0,
      sched = \<lparr>num_warmup_steps = 1 / 5, num_training_steps = 2, step_count = 0\<rparr>,
      calls = []\<rparr>"

definition demo_instructor :: "nat \<Rightarrow> nat instructor" where
  "demo_instructor n =
     \<lparr>ins_args = demo_args ''bert'' ''fnn'' n, tokenizer = ''bert-base-uncased'', model = 0\<rparr>"

section \<open>Properties\<close>

subsection \<open>The loop bodies\<close>


lemma count_correct_broadcast: "count_correct [[2, 1], [3, 0]] [0] = 2"
  by (simp add: count_correct_def argmax_def)

lemma train_batch_fst:
  "fst (train_batch env b (t, s)) =
     accumulate (cross_entropy env (forward env (params s) (training s) (inputs b)) (targets b))
       (forward env (params s) (training s) (inputs b)) (targets b) t"
  by (simp add: train_batch_def log_calls_def Let_def split: prod.splits)

lemma train_batch_snd: "snd (train_batch env b (t, s)) = snd (train_batch env b (totals0, s))"
  by (simp add: train_batch_def log_calls_def Let_def split: prod.splits)

lemma train_batch_store:
  "train_batch env b (t, s) = (t', s') \<Longrightarrow>
     calls s' = calls s @ train_batch_calls (training s) (grad_enabled s) \<and>
     training s' = training s \<and> grad_enabled s' = grad_enabled s \<and>
     sched s' = (sched s)\<lparr>step_count := Suc (step_count (sched s))\<rparr>"
  by (auto simp add: train_batch_def log_calls_def Let_def train_batch_calls_def split: prod.splits)

lemma test_batch_eq:
  "test_batch env b (t, s) =
     (accumulate (cross_entropy env (forward env (params s) (training s) (inputs b)) (targets b))
        (forward env (params s) (training s) (inputs b)) (targets b) t,
      log_calls (test_batch_calls (training s) (grad_enabled s)) s)"
  by (simp add: test_batch_def log_calls_def Let_def test_batch_calls_def)

subsection \<open>The vocabulary\<close>

lemma length_predicts_of: "length (predicts_of step env bs s) = length bs"
  by (induction bs arbitrary: s) auto

lemma length_batch_losses:
  "length (batch_losses env (predicts_of step env bs s) bs) = length bs"
  by (simp add: batch_losses_def length_predicts_of)

lemma n_samples_pos:
  "bs \<noteq> [] \<Longrightarrow> \<forall>b\<in>set bs. 0 < batch_size b \<Longrightarrow> 0 < n_samples bs"
  by (cases bs) (auto simp: n_samples_def)



lemma predicts_of_test:
  "predicts_of test_batch env bs s = map (\<lambda>b. forward env (params s) (training s) (inputs b)) bs"
  by (induction bs arbitrary: s) (auto simp add: test_batch_eq log_calls_def)

subsection \<open>The loops\<close>

lemma fold_train_batch_totals:
  "fold (train_batch env) bs (t, s) = (t', s') \<Longrightarrow>
     t' = \<lparr>loss_sum = loss_sum t
             + weighted_loss (batch_losses env (predicts_of train_batch env bs s) bs) bs,
           n_correct = n_correct t + correct_total (predicts_of train_batch env bs s) bs,
           n_seen = n_seen t + n_samples bs\<rparr>"
proof (induction bs arbitrary: t s)
  case Nil
  then show ?case by (simp add: n_samples_def weighted_loss_def batch_losses_def correct_total_def)
next
  case (Cons b bs)
  obtain t1 s1 where step: "train_batch env b (t, s) = (t1, s1)"
    by (cases "train_batch env b (t, s)")
  have s1: "s1 = snd (train_batch env b (totals0, s))"
    using step train_batch_snd [of env b t s] by simp
  have t1: "t1 = accumulate
       (cross_entropy env (forward env (params s) (training s) (inputs b)) (targets b))
       (forward env (params s) (training s) (inputs b)) (targets b) t"
    using step train_batch_fst [of env b t s] by simp
  from Cons.prems step have "fold (train_batch env) bs (t1, s1) = (t', s')" by simp
  from Cons.IH [OF this] s1 t1 show ?case
    by (simp add: n_samples_def weighted_loss_def batch_losses_def correct_total_def
          accumulate_def batch_size_def)
qed

lemma fold_train_batch_store:
  "fold (train_batch env) bs (t, s) = (t', s') \<Longrightarrow>
     calls s' = calls s @ concat (map (\<lambda>b. train_batch_calls (training s) (grad_enabled s)) bs) \<and>
     training s' = training s \<and> grad_enabled s' = grad_enabled s \<and>
     sched s' = (sched s)\<lparr>step_count := step_count (sched s) + length bs\<rparr>"
proof (induction bs arbitrary: t s)
  case Nil
  then show ?case by simp
next
  case (Cons b bs)
  obtain t1 s1 where step: "train_batch env b (t, s) = (t1, s1)"
    by (cases "train_batch env b (t, s)")
  from Cons.prems step have "fold (train_batch env) bs (t1, s1) = (t', s')" by simp
  from Cons.IH [OF this] train_batch_store [OF step] show ?case by simp
qed

lemma fold_test_batch:
  "fold (test_batch env) bs (t, s) =
     (\<lparr>loss_sum = loss_sum t
          + weighted_loss (batch_losses env (predicts_of test_batch env bs s) bs) bs,
       n_correct = n_correct t + correct_total (predicts_of test_batch env bs s) bs,
       n_seen = n_seen t + n_samples bs\<rparr>,
      log_calls (concat (map (\<lambda>b. test_batch_calls (training s) (grad_enabled s)) bs)) s)"
proof (induction bs arbitrary: t s)
  case Nil
  then show ?case
    by (simp add: n_samples_def weighted_loss_def batch_losses_def correct_total_def log_calls_def)
next
  case (Cons b bs)
  show ?case
    by (simp add: Cons.IH test_batch_eq n_samples_def weighted_loss_def batch_losses_def
          correct_total_def log_calls_def accumulate_def batch_size_def)
qed

subsection \<open>The passes in closed form\<close>

lemma Instructor_train_eq:
  "\<exists>s'. Instructor_train env bs s =
     (mean_results
        \<lparr>loss_sum = weighted_loss (batch_losses env (predicts_of train_batch env bs (train_entry s)) bs) bs,
         n_correct = correct_total (predicts_of train_batch env bs (train_entry s)) bs,
         n_seen = n_samples bs\<rparr>, s') \<and>
     calls s' = calls s @ Model_train # concat (map (\<lambda>b. train_batch_calls True (grad_enabled s)) bs) \<and>
     grad_enabled s' = grad_enabled s \<and>
     sched s' = (sched s)\<lparr>step_count := step_count (sched s) + length bs\<rparr>"
proof -
  obtain t' s' where f: "fold (train_batch env) bs (totals0, train_entry s) = (t', s')"
    by (cases "fold (train_batch env) bs (totals0, train_entry s)")
  have "Instructor_train env bs s =
     (mean_results
        \<lparr>loss_sum = weighted_loss (batch_losses env (predicts_of train_batch env bs (train_entry s)) bs) bs,
         n_correct = correct_total (predicts_of train_batch env bs (train_entry s)) bs,
         n_seen = n_samples bs\<rparr>, s')"
    using f fold_train_batch_totals [OF f] by (simp add: Instructor_train_def totals0_def)
  moreover have "calls s' = calls s @ Model_train # concat (map (\<lambda>b. train_batch_calls True (grad_enabled s)) bs) \<and>
     grad_enabled s' = grad_enabled s \<and>
     sched s' = (sched s)\<lparr>step_count := step_count (sched s) + length bs\<rparr>"
    using fold_train_batch_store [OF f] by (simp add: train_entry_def log_calls_def)
  ultimately show ?thesis by blast
qed

lemma Instructor_test_eq:
  "Instructor_test env bs s =
     (mean_results
        \<lparr>loss_sum = weighted_loss (batch_losses env (predicts_of test_batch env bs (test_entry s)) bs) bs,
         n_correct = correct_total (predicts_of test_batch env bs (test_entry s)) bs,
         n_seen = n_samples bs\<rparr>,
      log_calls (Model_eval # No_grad_enter # concat (map (\<lambda>b. test_batch_calls False False) bs)
                 @ [No_grad_exit]) (s\<lparr>training := False\<rparr>))"
  by (simp add: Instructor_test_def fold_test_batch log_calls_def totals0_def test_entry_def)

lemma mean_results_pos:
  "0 < n \<Longrightarrow>
   mean_results \<lparr>loss_sum = w, n_correct = c, n_seen = n\<rparr> = Inr (w / real n, real c / real n)"
  by (simp add: mean_results_def)

subsection \<open>The best pair\<close>

lemma update_best_frame:
  "l_epo (update_best r loc) = l_epo loc \<and> l_acc (update_best r loc) = l_acc loc"
  by (simp add: update_best_def split: prod.splits)

lemma update_best_mono: "best_acc loc \<le> best_acc (update_best r loc)"
  by (auto simp add: update_best_def split: prod.splits)

lemma update_best_history:
  "best_acc (update_best r (loc\<lparr>l_epo := es, l_acc := accs\<rparr>)) = best_acc (update_best r loc) \<and>
   best_loss (update_best r (loc\<lparr>l_epo := es, l_acc := accs\<rparr>)) = best_loss (update_best r loc)"
  by (simp add: update_best_def split: prod.splits)

lemma update_best_cong:
  "best_acc loc = best_acc loc' \<Longrightarrow> best_loss loc = best_loss loc' \<Longrightarrow>
   best_acc (update_best r loc) = best_acc (update_best r loc') \<and>
   best_loss (update_best r loc) = best_loss (update_best r loc')"
  by (simp add: update_best_def split: prod.splits)

lemma fold_update_best_cong:
  "best_acc loc = best_acc loc' \<Longrightarrow> best_loss loc = best_loss loc' \<Longrightarrow>
   best_acc (fold update_best rs loc) = best_acc (fold update_best rs loc') \<and>
   best_loss (fold update_best rs loc) = best_loss (fold update_best rs loc')"
proof (induction rs arbitrary: loc loc')
  case Nil
  then show ?case by simp
next
  case (Cons r rs)
  have "best_acc (update_best r loc) = best_acc (update_best r loc')"
    and "best_loss (update_best r loc) = best_loss (update_best r loc')"
    using update_best_cong [OF Cons.prems, of r] by simp_all
  from Cons.IH [OF this] show ?case by simp
qed

subsection \<open>One epoch\<close>

lemma files_written_append: "files_written (xs @ ys) = files_written xs @ files_written ys"
  by (simp add: files_written_def map_filter_def)

lemma test_results_append: "test_results (xs @ ys) = test_results xs @ test_results ys"
  by (simp add: test_results_def map_filter_def)

lemma files_written_simps:
  "files_written [] = []"
  "files_written (c # cs) = (case persisted c of None \<Rightarrow> files_written cs | Some f \<Rightarrow> f # files_written cs)"
  by (simp_all add: files_written_def map_filter_def split: option.splits)

lemma test_results_simps:
  "test_results [] = []"
  "test_results (c # cs) = (case reported_test c of None \<Rightarrow> test_results cs | Some r \<Rightarrow> r # test_results cs)"
  by (simp_all add: test_results_def map_filter_def split: option.splits)

lemma pass_calls_quiet:
  "files_written (concat (map (\<lambda>b. train_batch_calls tr ge) bs)) = [] \<and>
   test_results (concat (map (\<lambda>b. train_batch_calls tr ge) bs)) = [] \<and>
   files_written (concat (map (\<lambda>b. test_batch_calls tr ge) bs)) = [] \<and>
   test_results (concat (map (\<lambda>b. test_batch_calls tr ge) bs)) = []"
  by (induction bs)
     (simp_all add: files_written_append test_results_append files_written_simps
        test_results_simps train_batch_calls_def test_batch_calls_def)

lemma pass_calls_scheduler:
  "count_list (concat (map (\<lambda>b. train_batch_calls tr ge) bs)) Scheduler_step = length bs \<and>
   count_list (concat (map (\<lambda>b. test_batch_calls tr ge) bs)) Scheduler_step = 0"
  by (induction bs) (simp_all add: train_batch_calls_def test_batch_calls_def)

lemma epoch_body_Inr:
  assumes "epoch_body env a tr te e (loc, s) = (Inr loc', s')"
  shows "\<exists>l acc cs'.
           loc' = update_best (l, acc) (loc\<lparr>l_epo := l_epo loc @ [e], l_acc := l_acc loc @ [acc]\<rparr>) \<and>
           calls s' = calls s @ cs' \<and> files_written cs' = [] \<and> test_results cs' = [(l, acc)] \<and>
           count_list cs' Scheduler_step = length tr \<and>
           grad_enabled s' = grad_enabled s \<and>
           sched s' = (sched s)\<lparr>step_count := step_count (sched s) + length tr\<rparr>"
proof -
  obtain r1 s1 where tr: "Instructor_train env tr s = (r1, s1)"
    by (cases "Instructor_train env tr s")
  obtain tl ta where r1: "r1 = Inr (tl, ta)"
    using assms tr by (cases r1) (auto simp add: epoch_body_def)
  obtain r2 s2 where te: "Instructor_test env te s1 = (r2, s2)"
    by (cases "Instructor_test env te s1")
  obtain l acc where r2: "r2 = Inr (l, acc)"
    using assms tr r1 te by (cases r2) (auto simp add: epoch_body_def)
  have s1: "calls s1 = calls s @ Model_train # concat (map (\<lambda>b. train_batch_calls True (grad_enabled s)) tr)"
    "grad_enabled s1 = grad_enabled s"
    "sched s1 = (sched s)\<lparr>step_count := step_count (sched s) + length tr\<rparr>"
    using Instructor_train_eq [of env tr s] tr by auto
  have s2: "s2 = log_calls (Model_eval # No_grad_enter # concat (map (\<lambda>b. test_batch_calls False False) te)
                 @ [No_grad_exit]) (s1\<lparr>training := False\<rparr>)"
    using te by (simp add: Instructor_test_eq)
  let ?cs = "(Model_train # concat (map (\<lambda>b. train_batch_calls True (grad_enabled s)) tr))
     @ (Model_eval # No_grad_enter # concat (map (\<lambda>b. test_batch_calls False False) te) @ [No_grad_exit])
     @ [Logger_info (Progress (e + 1) (num_epoch a)), Logger_info (Train_metrics tl ta),
        Logger_info (Test_metrics l acc)]"
  have loc': "loc' = update_best (l, acc) (loc\<lparr>l_epo := l_epo loc @ [e], l_acc := l_acc loc @ [acc]\<rparr>)"
    and s': "s' = log_calls [Logger_info (Progress (e + 1) (num_epoch a)), Logger_info (Train_metrics tl ta),
        Logger_info (Test_metrics l acc)] s2"
    using assms tr r1 te r2 by (simp_all add: epoch_body_def Let_def)
  have f1: "calls s' = calls s @ ?cs"
    using s' s2 s1 by (simp add: log_calls_def)
  have f2: "files_written ?cs = []"
    by (simp add: files_written_append files_written_simps pass_calls_quiet)
  have f3: "test_results ?cs = [(l, acc)]"
    by (simp add: test_results_append test_results_simps pass_calls_quiet)
  have f4: "grad_enabled s' = grad_enabled s"
    using s' s2 s1 by (simp add: log_calls_def)
  have f5: "sched s' = (sched s)\<lparr>step_count := step_count (sched s) + length tr\<rparr>"
    using s' s2 s1 by (simp add: log_calls_def)
  have f6: "count_list ?cs Scheduler_step = length tr"
    by (simp add: pass_calls_scheduler)
  show ?thesis
    by (rule exI [of _ l], rule exI [of _ acc], rule exI [of _ ?cs])
       (intro conjI loc' f1 f2 f3 f6 f4 f5)
qed

lemma epoch_body_total:
  assumes "0 < n_samples tr" and "0 < n_samples te"
  shows "\<exists>loc' s'. epoch_body env a tr te e (loc, s) = (Inr loc', s')"
proof -
  obtain tl ta s1 where tr: "Instructor_train env tr s = (Inr (tl, ta), s1)"
    using Instructor_train_eq [of env tr s] assms(1) by (auto simp add: mean_results_pos)
  obtain l acc s2 where te: "Instructor_test env te s1 = (Inr (l, acc), s2)"
    using assms(2) by (simp add: Instructor_test_eq mean_results_pos)
  show ?thesis
    by (simp add: epoch_body_def Let_def tr te)
qed

subsection \<open>The loop over epochs\<close>

lemma epoch_loop_append:
  "epoch_loop env a tr te (xs @ ys) ls =
     (case epoch_loop env a tr te xs ls of
        (Inl e, s) \<Rightarrow> (Inl e, s)
      | (Inr loc, s) \<Rightarrow> epoch_loop env a tr te ys (loc, s))"
proof (induction xs arbitrary: ls)
  case Nil
  then show ?case by simp
next
  case (Cons x xs)
  show ?case
    by (simp add: Cons.IH split: prod.splits sum.splits)
qed

lemma epoch_loop_Inr:
  assumes "epoch_loop env a tr te es (loc, s) = (Inr loc', s')"
  shows "\<exists>cs'. calls s' = calls s @ cs' \<and> files_written cs' = [] \<and>
           length (test_results cs') = length es \<and>
           count_list cs' Scheduler_step = length tr * length es \<and>
           l_epo loc' = l_epo loc @ es \<and> l_acc loc' = l_acc loc @ map snd (test_results cs') \<and>
           best_acc loc' = best_acc (fold update_best (test_results cs') loc) \<and>
           best_loss loc' = best_loss (fold update_best (test_results cs') loc) \<and>
           best_acc loc \<le> best_acc loc' \<and>
           grad_enabled s' = grad_enabled s \<and>
           sched s' = (sched s)\<lparr>step_count := step_count (sched s) + length tr * length es\<rparr>"
  using assms
proof (induction es arbitrary: loc s)
  case Nil
  then show ?case
    by (auto simp add: files_written_simps test_results_simps)
next
  case (Cons e es)
  obtain r1 s1 where body: "epoch_body env a tr te e (loc, s) = (r1, s1)"
    by (cases "epoch_body env a tr te e (loc, s)")
  obtain loc1 where r1: "r1 = Inr loc1"
    using Cons.prems body by (cases r1) auto
  have rest: "epoch_loop env a tr te es (loc1, s1) = (Inr loc', s')"
    using Cons.prems body r1 by simp
  obtain l acc cs1 where b:
    "loc1 = update_best (l, acc) (loc\<lparr>l_epo := l_epo loc @ [e], l_acc := l_acc loc @ [acc]\<rparr>)"
    "calls s1 = calls s @ cs1" "files_written cs1 = []" "test_results cs1 = [(l, acc)]"
    "grad_enabled s1 = grad_enabled s"
    "sched s1 = (sched s)\<lparr>step_count := step_count (sched s) + length tr\<rparr>"
    "count_list cs1 Scheduler_step = length tr"
    using epoch_body_Inr [OF body [unfolded r1]] by blast
  obtain cs2 where r:
    "calls s' = calls s1 @ cs2" "files_written cs2 = []" "length (test_results cs2) = length es"
    "l_epo loc' = l_epo loc1 @ es" "l_acc loc' = l_acc loc1 @ map snd (test_results cs2)"
    "best_acc loc' = best_acc (fold update_best (test_results cs2) loc1)"
    "best_loss loc' = best_loss (fold update_best (test_results cs2) loc1)"
    "best_acc loc1 \<le> best_acc loc'"
    "grad_enabled s' = grad_enabled s1"
    "sched s' = (sched s1)\<lparr>step_count := step_count (sched s1) + length tr * length es\<rparr>"
    "count_list cs2 Scheduler_step = length tr * length es"
    using Cons.IH [OF rest] by blast
  have same: "best_acc loc1 = best_acc (update_best (l, acc) loc)"
             "best_loss loc1 = best_loss (update_best (l, acc) loc)"
    using b(1) update_best_history [where r = "(l, acc)" and loc = loc] by simp_all
  have hist: "l_epo loc1 = l_epo loc @ [e]" "l_acc loc1 = l_acc loc @ [acc]"
    using b(1) by (simp_all add: update_best_frame)
  have f1: "calls s' = calls s @ (cs1 @ cs2)" using b(2) r(1) by simp
  have f2: "files_written (cs1 @ cs2) = []"
    using b(3) r(2) by (simp add: files_written_append)
  have tr: "test_results (cs1 @ cs2) = (l, acc) # test_results cs2"
    using b(4) by (simp add: test_results_append)
  have f3: "length (test_results (cs1 @ cs2)) = length (e # es)"
    using tr r(3) by simp
  have f4: "l_epo loc' = l_epo loc @ e # es" using r(4) hist by simp
  have f5: "l_acc loc' = l_acc loc @ map snd (test_results (cs1 @ cs2))"
    using r(5) hist tr by simp
  have f6: "best_acc loc' = best_acc (fold update_best (test_results (cs1 @ cs2)) loc)"
    and f7: "best_loss loc' = best_loss (fold update_best (test_results (cs1 @ cs2)) loc)"
    using r(6,7) tr fold_update_best_cong [OF same, of "test_results cs2"] by simp_all
  have f8: "best_acc loc \<le> best_acc loc'"
    using r(8) same(1) update_best_mono [of loc "(l, acc)"] by simp
  have f9: "grad_enabled s' = grad_enabled s" using r(9) b(5) by simp
  have f10: "sched s' = (sched s)\<lparr>step_count := step_count (sched s) + length tr * length (e # es)\<rparr>"
    using r(10) b(6) by simp
  have f11: "count_list (cs1 @ cs2) Scheduler_step = length tr * length (e # es)"
    using b(7) r(11) by simp
  show ?case
    by (rule exI [of _ "cs1 @ cs2"]) (intro conjI f1 f2 f3 f11 f4 f5 f6 f7 f8 f9 f10)
qed

lemma epoch_loop_total:
  assumes "0 < n_samples tr" and "0 < n_samples te"
  shows "\<exists>loc' s'. epoch_loop env a tr te es (loc, s) = (Inr loc', s')"
proof (induction es arbitrary: loc s)
  case Nil
  then show ?case by simp
next
  case (Cons e es)
  obtain loc1 s1 where "epoch_body env a tr te e (loc, s) = (Inr loc1, s1)"
    using epoch_body_total [OF assms] by blast
  then show ?case using Cons.IH [of loc1 s1] by simp
qed

lemma upt_0_2: "[0..<2] = [0, Suc 0]"
  by (simp add: numeral_2_eq_2)

lemmas demo_defs = demo_torch_def demo_args_def demo_batches_def demo_train_def demo_test_def
  demo_wide_def
  demo_test_wrong_def demo_store_def demo_instructor_def

lemmas run_defs = main_def Instructor_init_def init_method_def init_finish_def Instructor_run_def run_setup_def
  run_finish_def epoch_body_def update_best_def locals0_def

lemmas pass_defs = Instructor_train_def train_entry_def train_batch_def Instructor_test_def
  test_entry_def test_batch_def log_calls_def accumulate_def totals0_def mean_results_def
  count_correct_def argmax_def Let_def

lemma demo_batches_ok: "demo_batches \<noteq> [] \<and> (\<forall>b\<in>set demo_batches. 0 < batch_size b)"
  by (simp add: demo_batches_def batch_size_def)

lemma demo_train_value:
  "fst (Instructor_train (demo_torch ([], [])) demo_batches demo_store) = Inr (3 / 4, 1 / 3)"
  by (simp add: pass_defs demo_defs)

lemma demo_test_value:
  "fst (Instructor_test (demo_torch ([], [])) demo_batches demo_store) = Inr (7 / 12, 2 / 3)"
  by (simp add: pass_defs demo_defs)

lemma demo_n_samples: "n_samples demo_batches = 3"
  by (simp add: n_samples_def batch_size_def demo_batches_def)

subsection \<open>The whole run\<close>

lemma run_setup_eq:
  "load_data env (ins_args self) (tokenizer self) = (tr, te) \<Longrightarrow>
   run_setup env self cs =
     ((tr, te),
      \<lparr>params = model self, training = True, grads = None, grad_enabled = True,
       optim = adamw env (ins_args self) (model self),
       sched = \<lparr>num_warmup_steps = 0.1 * real (length tr),
                num_training_steps = length tr * num_epoch (ins_args self), step_count = 0\<rparr>,
       calls = cs @ [Load_data, New_criterion, New_optimizer,
                     New_scheduler (0.1 * real (length tr))
                       (length tr * num_epoch (ins_args self))]\<rparr>)"
  by (simp add: run_setup_def Let_def)

lemma Instructor_run_Inr:
  assumes ld: "load_data env (ins_args self) (tokenizer self) = (tr, te)"
      and run: "Instructor_run env self cs = (Inr loc, s)"
  shows "\<exists>ep. calls s = cs @ [Load_data, New_criterion, New_optimizer,
                   New_scheduler (0.1 * real (length tr)) (length tr * num_epoch (ins_args self))]
                 @ ep @ run_finish (ins_args self) loc \<and>
           files_written ep = [] \<and>
           length (test_results ep) = num_epoch (ins_args self) \<and>
           count_list ep Scheduler_step = length tr * num_epoch (ins_args self) \<and>
           l_epo loc = [0 ..< num_epoch (ins_args self)] \<and>
           l_acc loc = map snd (test_results ep) \<and>
           best_acc loc = best_acc (fold update_best (test_results ep) locals0) \<and>
           best_loss loc = best_loss (fold update_best (test_results ep) locals0) \<and>
           sched s = \<lparr>num_warmup_steps = 0.1 * real (length tr),
                      num_training_steps = length tr * num_epoch (ins_args self),
                      step_count = length tr * num_epoch (ins_args self)\<rparr>"
proof -
  let ?N = "num_epoch (ins_args self)"
  let ?pre = "[Load_data, New_criterion, New_optimizer,
                 New_scheduler (0.1 * real (length tr)) (length tr * ?N)]"
  obtain s0 where s0: "run_setup env self cs = ((tr, te), s0)"
    and c0: "calls s0 = cs @ ?pre"
    and sc0: "sched s0 = \<lparr>num_warmup_steps = 0.1 * real (length tr),
                      num_training_steps = length tr * ?N, step_count = 0\<rparr>"
    using run_setup_eq [OF ld, of cs] by simp
  obtain r1 s1 where loop: "epoch_loop env (ins_args self) tr te [0 ..< ?N] (locals0, s0) = (r1, s1)"
    by (cases "epoch_loop env (ins_args self) tr te [0 ..< ?N] (locals0, s0)")
  have r1: "r1 = Inr loc" and s: "s = log_calls (run_finish (ins_args self) loc) s1"
    using run s0 loop by (cases r1; simp add: Instructor_run_def)+
  obtain ep where e:
    "calls s1 = calls s0 @ ep" "files_written ep = []" "length (test_results ep) = length [0 ..< ?N]"
    "count_list ep Scheduler_step = length tr * length [0 ..< ?N]"
    "l_epo loc = l_epo locals0 @ [0 ..< ?N]" "l_acc loc = l_acc locals0 @ map snd (test_results ep)"
    "best_acc loc = best_acc (fold update_best (test_results ep) locals0)"
    "best_loss loc = best_loss (fold update_best (test_results ep) locals0)"
    "sched s1 = (sched s0)\<lparr>step_count := step_count (sched s0) + length tr * length [0 ..< ?N]\<rparr>"
    using epoch_loop_Inr [OF loop [unfolded r1]] by blast
  have f1: "calls s = cs @ ?pre @ ep @ run_finish (ins_args self) loc"
    using s e(1) c0 by (simp add: log_calls_def)
  have f3: "length (test_results ep) = ?N" using e(3) by simp
  have f4: "count_list ep Scheduler_step = length tr * ?N" using e(4) by simp
  have f5: "l_epo loc = [0 ..< ?N]" using e(5) by (simp add: locals0_def)
  have f6: "l_acc loc = map snd (test_results ep)" using e(6) by (simp add: locals0_def)
  have f9: "sched s = \<lparr>num_warmup_steps = 0.1 * real (length tr),
                      num_training_steps = length tr * ?N, step_count = length tr * ?N\<rparr>"
    using s e(9) sc0 by (simp add: log_calls_def)
  show ?thesis
    by (rule exI [of _ ep]) (intro conjI f1 e(2) f3 f4 f5 f6 e(7) e(8) f9)
qed

lemma Instructor_run_total:
  assumes ld: "load_data env (ins_args self) (tokenizer self) = (tr, te)"
      and ok: "num_epoch (ins_args self) = 0 \<or> (0 < n_samples tr \<and> 0 < n_samples te)"
  shows "\<exists>loc s. Instructor_run env self cs = (Inr loc, s)"
proof -
  obtain s0 where s0: "run_setup env self cs = ((tr, te), s0)"
    using run_setup_eq [OF ld, of cs] by simp
  have "\<exists>loc s1. epoch_loop env (ins_args self) tr te [0 ..< num_epoch (ins_args self)]
                    (locals0, s0) = (Inr loc, s1)"
    using ok
  proof
    assume "num_epoch (ins_args self) = 0"
    then show ?thesis by simp
  next
    assume "0 < n_samples tr \<and> 0 < n_samples te"
    then show ?thesis using epoch_loop_total by blast
  qed
  then show ?thesis
    using s0 by (auto simp add: Instructor_run_def)
qed

lemma demo_load:
  "load_data (demo_torch dls) (ins_args (demo_instructor n)) (tokenizer (demo_instructor n)) = dls"
  by (simp add: demo_torch_def)

lemma demo_loaders_pos: "0 < n_samples demo_train \<and> 0 < n_samples demo_test"
  by (simp add: n_samples_def batch_size_def demo_train_def demo_test_def)

lemma demo_run_value:
  "fst (Instructor_run (demo_torch (demo_train, demo_test)) (demo_instructor 2) []) =
     Inr \<lparr>best_loss = 1 / 4, best_acc = 1, l_acc = [1, 0], l_epo = [0, 1]\<rparr>"
  by (simp add: run_defs pass_defs demo_defs upt_0_2)

subsection \<open>What the best pair is\<close>

lemma update_best_cases:
  "(best_loss (update_best (l, a) loc), best_acc (update_best (l, a) loc)) =
     (if best_acc loc < a \<or> (a = best_acc loc \<and> l < best_loss loc) then (l, a)
      else (best_loss loc, best_acc loc))"
  by (simp add: update_best_def)

lemma fold_update_best_invariant:
  "(best_acc loc < best_acc (fold update_best rs loc) \<or>
      (best_acc loc = best_acc (fold update_best rs loc) \<and>
       best_loss (fold update_best rs loc) \<le> best_loss loc)) \<and>
   (\<forall>(l, a)\<in>set rs.
      a < best_acc (fold update_best rs loc) \<or>
      (a = best_acc (fold update_best rs loc) \<and> best_loss (fold update_best rs loc) \<le> l)) \<and>
   ((best_loss (fold update_best rs loc), best_acc (fold update_best rs loc)) \<in> set rs \<or>
    (best_loss (fold update_best rs loc) = best_loss loc \<and>
     best_acc (fold update_best rs loc) = best_acc loc))"
proof (induction rs arbitrary: loc)
  case Nil
  then show ?case by simp
next
  case (Cons r rs)
  obtain l a where r: "r = (l, a)" by (cases r)
  let ?loc1 = "update_best (l, a) loc"
  let ?F = "fold update_best rs ?loc1"
  have step: "(best_loss ?loc1, best_acc ?loc1) =
     (if best_acc loc < a \<or> (a = best_acc loc \<and> l < best_loss loc) then (l, a)
      else (best_loss loc, best_acc loc))"
    by (rule update_best_cases)
  have ih1: "best_acc ?loc1 < best_acc ?F \<or> (best_acc ?loc1 = best_acc ?F \<and> best_loss ?F \<le> best_loss ?loc1)"
    and ih2: "\<forall>(l, a)\<in>set rs. a < best_acc ?F \<or> (a = best_acc ?F \<and> best_loss ?F \<le> l)"
    and ih3: "(best_loss ?F, best_acc ?F) \<in> set rs \<or>
              (best_loss ?F = best_loss ?loc1 \<and> best_acc ?F = best_acc ?loc1)"
    using Cons.IH [of ?loc1] by blast+
  have g1: "best_acc loc < best_acc ?F \<or> (best_acc loc = best_acc ?F \<and> best_loss ?F \<le> best_loss loc)"
    using step ih1 by (auto split: if_splits)
  have g2: "a < best_acc ?F \<or> (a = best_acc ?F \<and> best_loss ?F \<le> l)"
    using step ih1 by (auto split: if_splits)
  have g3: "(best_loss ?F, best_acc ?F) \<in> set ((l, a) # rs) \<or>
            (best_loss ?F = best_loss loc \<and> best_acc ?F = best_acc loc)"
    using step ih3 by (auto split: if_splits)
  show ?case
    unfolding r using g1 g2 g3 ih2 by simp
qed

lemma best_snapshot_of_positive_run:
  assumes "(l0, a0) \<in> set rs" and "0 < a0"
  shows "(best_loss (fold update_best rs locals0), best_acc (fold update_best rs locals0)) \<in> set rs \<and>
         (\<forall>(l, a)\<in>set rs.
            a < best_acc (fold update_best rs locals0) \<or>
            (a = best_acc (fold update_best rs locals0) \<and>
             best_loss (fold update_best rs locals0) \<le> l))"
proof -
  let ?F = "fold update_best rs locals0"
  note inv = fold_update_best_invariant [of locals0 rs]
  have dom: "\<forall>(l, a)\<in>set rs. a < best_acc ?F \<or> (a = best_acc ?F \<and> best_loss ?F \<le> l)"
    using inv by blast
  then have "a0 \<le> best_acc ?F" using assms(1) by auto
  then have "best_acc ?F \<noteq> best_acc locals0" using assms(2) by (simp add: locals0_def)
  then have "(best_loss ?F, best_acc ?F) \<in> set rs" using inv by blast
  then show ?thesis using dom by blast
qed

lemma best_snapshot_of_zero_run:
  assumes "\<forall>(l, a)\<in>set rs. a = 0 \<and> 0 \<le> l"
  shows "fold update_best rs locals0 = locals0"
  using assms by (induction rs) (auto simp add: update_best_def locals0_def)

section \<open>The claims\<close>

text \<open>
  Claim C1: after the last epoch the best pair is the evaluation result with the greatest
  accuracy, the least loss among equals, for every sequence of results, also when the
  greatest accuracy is 0. The code starts from the pair (0, 0) and replaces it only by a
  strictly better result: a run whose one epoch gets every test sample wrong, at the
  loss 3/4, ends with the best pair (0, 0), which no epoch produced.
\<close>

theorem best_snapshot_misses_zero_accuracy:
  "fst (main (demo_torch (demo_train, demo_test_wrong)) (demo_args ''bert'' ''fnn'' 1)) =
     Inr \<lparr>best_loss = 0, best_acc = 0, l_acc = [0], l_epo = [0]\<rparr> \<and>
   test_results (snd (main (demo_torch (demo_train, demo_test_wrong)) (demo_args ''bert'' ''fnn'' 1)))
     = [(3 / 4, 0)] \<and>
   Logger_info (Best_metrics 0 0)
     \<in> set (snd (main (demo_torch (demo_train, demo_test_wrong)) (demo_args ''bert'' ''fnn'' 1))) \<and>
   fold update_best [(3 / 4, 0)] locals0 = locals0"
  by (simp add: run_defs pass_defs demo_defs test_results_simps)

text \<open>
  Claim C2: on an empty batch stream a pass must not divide by zero, but complete and
  return a well-defined (mean loss, accuracy). The code has no guard: with no batch the
  sample count is 0 at the final division, and both passes end with \<open>ZeroDivisionError\<close>.
\<close>

theorem empty_stream_divides_by_zero:
  "fst (Instructor_train env [] s) = Inl ZeroDivisionError \<and>
   fst (Instructor_test env [] s) = Inl ZeroDivisionError"
  by (simp add: Instructor_train_def Instructor_test_def mean_results_def totals0_def)

text \<open>
  Claim C3: for a non-empty batch stream (of non-empty batches, as a data loader yields
  them), the mean loss that a training pass or an evaluation pass returns is the sum of the
  per-batch losses, each multiplied by its batch size, divided by the number of samples.
\<close>

theorem mean_loss_weighted:
  assumes "bs \<noteq> []" and "\<forall>b\<in>set bs. 0 < batch_size b"
  shows "(\<exists>acc s'. Instructor_train env bs s =
            (Inr (weighted_loss (batch_losses env (predicts_of train_batch env bs (train_entry s)) bs) bs
                    / real (n_samples bs), acc), s')) \<and>
         (\<exists>acc s'. Instructor_test env bs s =
            (Inr (weighted_loss (batch_losses env (predicts_of test_batch env bs (test_entry s)) bs) bs
                    / real (n_samples bs), acc), s'))"
proof -
  have pos: "0 < n_samples bs" using assms by (rule n_samples_pos)
  have "\<exists>acc s'. Instructor_train env bs s =
            (Inr (weighted_loss (batch_losses env (predicts_of train_batch env bs (train_entry s)) bs) bs
                    / real (n_samples bs), acc), s')"
    using Instructor_train_eq [of env bs s] pos by (auto simp add: mean_results_pos)
  moreover have "\<exists>acc s'. Instructor_test env bs s =
            (Inr (weighted_loss (batch_losses env (predicts_of test_batch env bs (test_entry s)) bs) bs
                    / real (n_samples bs), acc), s')"
    using pos by (simp add: Instructor_test_eq mean_results_pos)
  ultimately show ?thesis by blast
qed

theorem mean_loss_weighted_witness:
  "(\<exists>acc s'. Instructor_train (demo_torch ([], [])) demo_batches demo_store =
      (Inr (weighted_loss (batch_losses (demo_torch ([], []))
              (predicts_of train_batch (demo_torch ([], [])) demo_batches (train_entry demo_store))
              demo_batches) demo_batches / real (n_samples demo_batches), acc), s')) \<and>
   (\<exists>acc s'. Instructor_test (demo_torch ([], [])) demo_batches demo_store =
      (Inr (weighted_loss (batch_losses (demo_torch ([], []))
              (predicts_of test_batch (demo_torch ([], [])) demo_batches (test_entry demo_store))
              demo_batches) demo_batches / real (n_samples demo_batches), acc), s')) \<and>
   fst (Instructor_train (demo_torch ([], [])) demo_batches demo_store) = Inr (3 / 4, 1 / 3) \<and>
   fst (Instructor_test (demo_torch ([], [])) demo_batches demo_store) = Inr (7 / 12, 2 / 3)"
  using mean_loss_weighted [of demo_batches "demo_torch ([], [])" demo_store]
    demo_batches_ok demo_train_value demo_test_value by blast




text \<open>
  Claim C5: a configuration whose \<open>model_name\<close> is not \<open>bert\<close> or \<open>roberta\<close>, or whose
  \<open>method_name\<close> is not \<open>fnn\<close> or \<open>lstm\<close>, makes the constructor raise \<open>ValueError\<close>;
  the program ends with that error and never calls \<open>load_data\<close>. With recognised names the
  constructor raises no such error and returns the object. For an unknown model the
  only call before the error is the log line; for a known model and an unknown method,
  the log line and the two \<open>from_pretrained\<close> calls.
\<close>

theorem unknown_names_raise_before_load_data:
  fixes env :: "('i, 'p, 'g, 'o) torch"
  shows
  "(model_name a \<notin> {''bert'', ''roberta''} \<or> method_name a \<notin> {''fnn'', ''lstm''} \<longrightarrow>
      (\<exists>m. fst (Instructor_init env a [] :: (py_error + 'p instructor) \<times> call list)
             = Inl (ValueError m) \<and>
           fst (main env a) = Inl (ValueError m)) \<and>
      snd (main env a) = snd (Instructor_init env a []) \<and>
      Load_data \<notin> set (snd (main env a))) \<and>
   (model_name a \<notin> {''bert'', ''roberta''} \<longrightarrow>
      Instructor_init env a cs =
        (Inl (ValueError ''unknown model''), cs @ [Logger_info (Creating_model (model_name a))])) \<and>
   (model_name a \<in> {''bert'', ''roberta''} \<and> method_name a \<notin> {''fnn'', ''lstm''} \<longrightarrow>
      (\<exists>base. Instructor_init env a cs =
        (Inl (ValueError ''unknown method''),
         cs @ [Logger_info (Creating_model (model_name a)), Tokenizer_from_pretrained base,
               Model_from_pretrained base]))) \<and>
   (model_name a \<in> {''bert'', ''roberta''} \<and> method_name a \<in> {''fnn'', ''lstm''} \<longrightarrow>
      (\<exists>ins. fst (Instructor_init env a cs) = Inr ins))"
  by (auto simp add: main_def Instructor_init_def init_method_def init_finish_def Let_def)

theorem unknown_names_raise_before_load_data_witness:
  "fst (main (demo_torch (demo_train, demo_test)) (demo_args ''gpt'' ''fnn'' 1)) =
     Inl (ValueError ''unknown model'') \<and>
   Load_data \<notin> set (snd (main (demo_torch (demo_train, demo_test)) (demo_args ''gpt'' ''fnn'' 1))) \<and>
   fst (main (demo_torch (demo_train, demo_test)) (demo_args ''bert'' ''cnn'' 1)) =
     Inl (ValueError ''unknown method'') \<and>
   Load_data \<notin> set (snd (main (demo_torch (demo_train, demo_test)) (demo_args ''bert'' ''cnn'' 1))) \<and>
   (\<exists>ins. fst (Instructor_init (demo_torch (demo_train, demo_test))
                 (demo_args ''roberta'' ''lstm'' 1) []) = Inr ins)"
  using unknown_names_raise_before_load_data
          [of "demo_args ''gpt'' ''fnn'' 1" "demo_torch (demo_train, demo_test)" "[]"]
        unknown_names_raise_before_load_data
          [of "demo_args ''bert'' ''cnn'' 1" "demo_torch (demo_train, demo_test)" "[]"]
        unknown_names_raise_before_load_data
          [of "demo_args ''roberta'' ''lstm'' 1" "demo_torch (demo_train, demo_test)" "[]"]
  by (auto simp add: demo_args_def)



text \<open>
  Claim C7: an evaluation pass leaves the trainable parameters as they are, and with
  them the gradients, the optimizer and the scheduler; it calls no optimizer or
  scheduler step, and every forward pass runs in evaluation mode with gradient tracking
  off. A second pass on the same input computes the same logits and returns the same
  (loss, accuracy).
\<close>

theorem test_pass_frame:
  "params (snd (Instructor_test env bs s)) = params s \<and>
   grads (snd (Instructor_test env bs s)) = grads s \<and>
   optim (snd (Instructor_test env bs s)) = optim s \<and>
   sched (snd (Instructor_test env bs s)) = sched s \<and>
   grad_enabled (snd (Instructor_test env bs s)) = grad_enabled s \<and>
   calls (snd (Instructor_test env bs s)) =
     calls s @ Model_eval # No_grad_enter #
       concat (map (\<lambda>b. [To_device, Forward False False, Criterion, Loss_item, Correct_item]) bs)
       @ [No_grad_exit] \<and>
   predicts_of test_batch env bs (test_entry (snd (Instructor_test env bs s))) =
     predicts_of test_batch env bs (test_entry s) \<and>
   fst (Instructor_test env bs (snd (Instructor_test env bs s))) = fst (Instructor_test env bs s)"
  by (simp add: Instructor_test_eq log_calls_def test_batch_calls_def predicts_of_test test_entry_def)

text \<open>
  Claim C8: after the last epoch, \<open>run\<close> logs the best pair, then plots the history (one
  point per epoch, the epoch index against the test accuracy of that epoch, in epoch
  order) and saves the plot to \<open>image.png\<close>; the run writes no other file, and saves no
  checkpoint. (The run completes when it has no epoch to run, or both data loaders hold
  a sample.)
\<close>

theorem run_persists_only_the_plot:
  assumes "load_data env (ins_args self) (tokenizer self) = (tr, te)"
      and "num_epoch (ins_args self) = 0 \<or> (0 < n_samples tr \<and> 0 < n_samples te)"
  shows "\<exists>loc s mid.
           Instructor_run env self cs = (Inr loc, s) \<and>
           calls s = cs @ mid @
             [Logger_info (Best_metrics (best_loss loc) (best_acc loc)),
              Logger_info (Log_saved (log_name (ins_args self))),
              Plt_plot [0 ..< num_epoch (ins_args self)] (map snd (test_results mid)),
              Plt_ylabel ''accuracy'', Plt_xlabel ''epoch'', Plt_savefig ''image.png'', Plt_show] \<and>
           length (test_results mid) = num_epoch (ins_args self) \<and>
           files_written mid = [] \<and>
           files_written (drop (length cs) (calls s)) = [''image.png'']"
proof -
  let ?N = "num_epoch (ins_args self)"
  let ?pre = "[Load_data, New_criterion, New_optimizer,
                 New_scheduler (0.1 * real (length tr)) (length tr * ?N)]"
  obtain loc s where run: "Instructor_run env self cs = (Inr loc, s)"
    using Instructor_run_total [OF assms] by blast
  obtain ep where e:
    "calls s = cs @ ?pre @ ep @ run_finish (ins_args self) loc"
    "files_written ep = []" "length (test_results ep) = ?N"
    "l_epo loc = [0 ..< ?N]" "l_acc loc = map snd (test_results ep)"
    using Instructor_run_Inr [OF assms(1) run] by blast
  have tr: "test_results (?pre @ ep) = test_results ep"
    by (simp add: test_results_simps)
  have fw: "files_written (?pre @ ep) = []"
    using e(2) by (simp add: files_written_simps)
  have f1: "calls s = cs @ (?pre @ ep) @
             [Logger_info (Best_metrics (best_loss loc) (best_acc loc)),
              Logger_info (Log_saved (log_name (ins_args self))),
              Plt_plot [0 ..< ?N] (map snd (test_results (?pre @ ep))),
              Plt_ylabel ''accuracy'', Plt_xlabel ''epoch'', Plt_savefig ''image.png'', Plt_show]"
    unfolding tr using e(1,4,5) by (simp add: run_finish_def)
  have f2: "length (test_results (?pre @ ep)) = ?N"
    unfolding tr by (rule e(3))
  have f3: "files_written (drop (length cs) (calls s)) = [''image.png'']"
    using e(1,2) by (simp add: run_finish_def files_written_append files_written_simps)
  show ?thesis
    by (rule exI [of _ loc], rule exI [of _ s], rule exI [of _ "?pre @ ep"])
       (intro conjI run f1 f2 fw f3)
qed

theorem run_persists_only_the_plot_witness:
  "(\<exists>loc s mid.
      Instructor_run (demo_torch (demo_train, demo_test)) (demo_instructor 2) [] = (Inr loc, s) \<and>
      calls s = [] @ mid @
        [Logger_info (Best_metrics (best_loss loc) (best_acc loc)),
         Logger_info (Log_saved (log_name (ins_args (demo_instructor 2)))),
         Plt_plot [0 ..< num_epoch (ins_args (demo_instructor 2))] (map snd (test_results mid)),
         Plt_ylabel ''accuracy'', Plt_xlabel ''epoch'', Plt_savefig ''image.png'', Plt_show] \<and>
      length (test_results mid) = num_epoch (ins_args (demo_instructor 2)) \<and>
      files_written mid = [] \<and>
      files_written (drop (length ([] :: call list)) (calls s)) = [''image.png'']) \<and>
   fst (Instructor_run (demo_torch (demo_train, demo_test)) (demo_instructor 2) []) =
     Inr \<lparr>best_loss = 1 / 4, best_acc = 1, l_acc = [1, 0], l_epo = [0, 1]\<rparr>"
proof -
  have h1: "load_data (demo_torch (demo_train, demo_test)) (ins_args (demo_instructor 2))
              (tokenizer (demo_instructor 2)) = (demo_train, demo_test)"
    by (rule demo_load)
  have h2: "num_epoch (ins_args (demo_instructor 2)) = 0 \<or>
            (0 < n_samples demo_train \<and> 0 < n_samples demo_test)"
    using demo_loaders_pos by simp
  from run_persists_only_the_plot [OF h1 h2, of "[]"] demo_run_value
  show ?thesis by (rule conjI)
qed

text \<open>
  Claim C9: over a complete run the scheduler is stepped once per training batch, so it
  ends with (number of batches per epoch) times \<open>num_epoch\<close> steps, the very number of
  training steps it was constructed with, beside a number of warmup steps of 0.1 times
  the number of batches per epoch.
\<close>

theorem scheduler_steps_equal_total:
  assumes "load_data env (ins_args self) (tokenizer self) = (tr, te)"
      and "num_epoch (ins_args self) = 0 \<or> (0 < n_samples tr \<and> 0 < n_samples te)"
  shows "\<exists>loc s.
           Instructor_run env self cs = (Inr loc, s) \<and>
           New_scheduler (0.1 * real (length tr)) (length tr * num_epoch (ins_args self))
             \<in> set (drop (length cs) (calls s)) \<and>
           num_warmup_steps (sched s) = 0.1 * real (length tr) \<and>
           num_training_steps (sched s) = length tr * num_epoch (ins_args self) \<and>
           step_count (sched s) = length tr * num_epoch (ins_args self) \<and>
           step_count (sched s) = num_training_steps (sched s) \<and>
           count_list (drop (length cs) (calls s)) Scheduler_step
             = length tr * num_epoch (ins_args self)"
proof -
  let ?N = "num_epoch (ins_args self)"
  obtain loc s where run: "Instructor_run env self cs = (Inr loc, s)"
    using Instructor_run_total [OF assms] by blast
  obtain ep where e:
    "calls s = cs @ [Load_data, New_criterion, New_optimizer,
                     New_scheduler (0.1 * real (length tr)) (length tr * ?N)]
                  @ ep @ run_finish (ins_args self) loc"
    "count_list ep Scheduler_step = length tr * ?N"
    "sched s = \<lparr>num_warmup_steps = 0.1 * real (length tr),
                 num_training_steps = length tr * ?N, step_count = length tr * ?N\<rparr>"
    using Instructor_run_Inr [OF assms(1) run] by blast
  have f1: "New_scheduler (0.1 * real (length tr)) (length tr * ?N) \<in> set (drop (length cs) (calls s))"
    using e(1) by simp
  have f2: "count_list (drop (length cs) (calls s)) Scheduler_step = length tr * ?N"
    using e(1,2) by (simp add: run_finish_def)
  show ?thesis
    using run f1 f2 e(3) by simp
qed

theorem scheduler_steps_equal_total_witness:
  "(\<exists>loc s.
      Instructor_run (demo_torch (demo_batches, demo_test)) (demo_instructor 2) [] = (Inr loc, s) \<and>
      num_warmup_steps (sched s) = 0.1 * real (length demo_batches) \<and>
      num_training_steps (sched s) = length demo_batches * 2 \<and>
      step_count (sched s) = length demo_batches * 2 \<and>
      count_list (calls s) Scheduler_step = length demo_batches * 2) \<and>
   length demo_batches * 2 = (4::nat)"
proof -
  have h1: "load_data (demo_torch (demo_batches, demo_test)) (ins_args (demo_instructor 2))
              (tokenizer (demo_instructor 2)) = (demo_batches, demo_test)"
    by (rule demo_load)
  have h2: "num_epoch (ins_args (demo_instructor 2)) = 0 \<or>
            (0 < n_samples demo_batches \<and> 0 < n_samples demo_test)"
    using demo_loaders_pos demo_n_samples by simp
  have n: "num_epoch (ins_args (demo_instructor 2)) = 2"
    by (simp add: demo_instructor_def demo_args_def)
  from scheduler_steps_equal_total [OF h1 h2, of "[]"]
  show ?thesis unfolding n by (auto simp add: demo_batches_def)
qed

text \<open>
  Claim C10: the stored best accuracy never decreases from one epoch to a later one: the
  best accuracy after the first \<open>j\<close> epochs is at least the one after the first \<open>i\<close>
  epochs, for \<open>i \<le> j\<close>.
\<close>

theorem best_acc_monotone:
  assumes "i \<le> j"
      and "epoch_loop env a tr te [0 ..< i] ls = (Inr li, si)"
      and "epoch_loop env a tr te [0 ..< j] ls = (Inr lj, sj)"
  shows "best_acc li \<le> best_acc lj"
proof -
  have "[0 ..< j] = [0 ..< i] @ [i ..< j]"
    using assms(1) upt_add_eq_append [of 0 i "j - i"] by simp
  then have "epoch_loop env a tr te [i ..< j] (li, si) = (Inr lj, sj)"
    using assms(2,3) by (simp add: epoch_loop_append)
  from epoch_loop_Inr [OF this] show ?thesis by blast
qed

theorem best_acc_monotone_witness:
  "(1::nat) \<le> 2 \<and>
   fst (epoch_loop (demo_torch (demo_train, demo_test)) (demo_args ''bert'' ''fnn'' 2)
          demo_train demo_test [0 ..< 1] (locals0, demo_store))
     = Inr \<lparr>best_loss = 1 / 4, best_acc = 1, l_acc = [1], l_epo = [0]\<rparr> \<and>
   fst (epoch_loop (demo_torch (demo_train, demo_test)) (demo_args ''bert'' ''fnn'' 2)
          demo_train demo_test [0 ..< 2] (locals0, demo_store))
     = Inr \<lparr>best_loss = 1 / 4, best_acc = 1, l_acc = [1, 0], l_epo = [0, 1]\<rparr> \<and>
   best_acc \<lparr>best_loss = 1 / 4, best_acc = 1, l_acc = [1], l_epo = [0]\<rparr>
     \<le> best_acc \<lparr>best_loss = 1 / 4, best_acc = 1, l_acc = [1, 0], l_epo = [0, 1]\<rparr>"
proof -
  let ?run = "\<lambda>n. epoch_loop (demo_torch (demo_train, demo_test)) (demo_args ''bert'' ''fnn'' 2)
          demo_train demo_test [0 ..< n] (locals0, demo_store)"
  have e1: "fst (?run 1) = Inr \<lparr>best_loss = 1 / 4, best_acc = 1, l_acc = [1], l_epo = [0]\<rparr>"
    by (simp add: run_defs pass_defs demo_defs)
  have e2: "fst (?run 2) = Inr \<lparr>best_loss = 1 / 4, best_acc = 1, l_acc = [1, 0], l_epo = [0, 1]\<rparr>"
    by (simp add: run_defs pass_defs demo_defs upt_0_2)
  have h1: "?run 1 = (Inr \<lparr>best_loss = 1 / 4, best_acc = 1, l_acc = [1], l_epo = [0]\<rparr>, snd (?run 1))"
    using e1 by (metis prod.collapse)
  have h2: "?run 2 = (Inr \<lparr>best_loss = 1 / 4, best_acc = 1, l_acc = [1, 0], l_epo = [0, 1]\<rparr>, snd (?run 2))"
    using e2 by (metis prod.collapse)
  have le: "(1::nat) \<le> 2" by simp
  from best_acc_monotone [OF le h1 h2] e1 e2 le show ?thesis by blast
qed

end
